theory Spec2Isabelle
  imports Main
begin

section \<open>Python values used by \<^verbatim>\<open>pyglet/scene2d/map.py\<close>\<close>

text \<open>
  The module is Python 2: integers are unbounded (\<^typ>\<open>int\<close>) and \<^verbatim>\<open>/\<close> on two
  integers is floor division (\<open>div\<close> on \<^typ>\<open>int\<close>). Every \<^verbatim>\<open>raise\<close> of the module and
  every exception of the indexing it performs is a value of \<open>error\<close>.
  \<open>NotImplemented_raise\<close> stands for the statement \<^verbatim>\<open>raise NotImplemented(...)\<close>: the
  statement never completes normally, whatever class the interpreter gives the exception.
\<close>

datatype error = ValueError | TypeError | IndexError | ZeroDivisionError | NotImplemented_raise

text \<open>
  A layer is the array \<^verbatim>\<open>[x][y]\<close> of the docstring of \<^verbatim>\<open>MapBase\<close>: a list of columns.
  A cell holds \<^verbatim>\<open>None\<close> or a value. The parameters \<^verbatim>\<open>meta\<close> and \<^verbatim>\<open>images\<close> are a
  layer or \<^verbatim>\<open>None\<close>.
\<close>

type_synonym 'a layer = "'a option list list"

text \<open>Truth value of \<^verbatim>\<open>None\<close> and of a list: only a non-empty list is true.\<close>

fun truthy :: "'a layer option \<Rightarrow> bool" where
  "truthy None = False"
| "truthy (Some []) = False"
| "truthy (Some (c # cs)) = True"

text \<open>\<^verbatim>\<open>a or b\<close>\<close>

definition py_or :: "'a layer option \<Rightarrow> 'a layer option \<Rightarrow> 'a layer option" where
  "py_or a b = (if truthy a then a else b)"

text \<open>\<^verbatim>\<open>xs[i]\<close>: an index below zero counts from the end, anything outside raises.\<close>

definition py_index :: "'a list \<Rightarrow> int \<Rightarrow> error + 'a" where
  "py_index xs i =
     (if i < - int (length xs) then Inl IndexError
      else if i < 0 then Inr (xs ! nat (int (length xs) + i))
      else if i < int (length xs) then Inr (xs ! nat i)
      else Inl IndexError)"

text \<open>\<^verbatim>\<open>l[x][y]\<close>\<close>

definition index2 :: "'a layer \<Rightarrow> int \<Rightarrow> int \<Rightarrow> error + 'a option" where
  "index2 l x y = (case py_index l x of Inl e \<Rightarrow> Inl e | Inr col \<Rightarrow> py_index col y)"

text \<open>
  What a rectangular tile can hold in \<^verbatim>\<open>meta\<close> and \<^verbatim>\<open>image\<close>: \<^verbatim>\<open>Map.get\<close> computes
  \<^verbatim>\<open>self.meta and self.meta[x][y]\<close>, which is the layer itself when the layer is
  \<^verbatim>\<open>None\<close> or \<^verbatim>\<open>[]\<close>, and the cell otherwise.
\<close>

datatype 'a attr = PyNone | PyEmptyList | PyVal 'a

definition and_index :: "'a layer option \<Rightarrow> int \<Rightarrow> int \<Rightarrow> error + 'a attr" where
  "and_index lo x y =
     (case lo of
        None \<Rightarrow> Inr PyNone
      | Some [] \<Rightarrow> Inr PyEmptyList
      | Some l \<Rightarrow>
          (case index2 l x y of
             Inl e \<Rightarrow> Inl e
           | Inr None \<Rightarrow> Inr PyNone
           | Inr (Some v) \<Rightarrow> Inr (PyVal v)))"

section \<open>Rectangular maps\<close>

record 'a Map =
  Map_pxw :: int
  Map_pxh :: int
  Map_tw :: int
  Map_th :: int
  Map_x :: int
  Map_y :: int
  Map_z :: int
  Map_meta :: "'a layer option"
  Map_images :: "'a layer option"

text \<open>\<^verbatim>\<open>Map.__init__(self, tw, th, origin=(0, 0, 0), meta=None, images=None)\<close>\<close>

definition Map_init ::
  "int \<Rightarrow> int \<Rightarrow> int \<times> int \<times> int \<Rightarrow> 'a layer option \<Rightarrow> 'a layer option \<Rightarrow> error + 'a Map" where
  "Map_init tw th origin meta images =
     (if Option.is_none meta \<and> Option.is_none images then Inl ValueError
      else
        (case origin of (ox, oy, oz) \<Rightarrow>
          (case py_or meta images of
             None \<Rightarrow> Inl TypeError
           | Some l \<Rightarrow>
               (case py_index l 1 of
                  Inl e \<Rightarrow> Inl e
                | Inr col \<Rightarrow>
                    Inr \<lparr>Map_pxw = int (length l) * tw, Map_pxh = int (length col) * th,
                         Map_tw = tw, Map_th = th, Map_x = ox, Map_y = oy, Map_z = oz,
                         Map_meta = meta, Map_images = images\<rparr>))))"

record 'a Tile =
  Tile_map :: "'a Map"
  Tile_x :: int
  Tile_y :: int
  Tile_width :: int
  Tile_height :: int
  Tile_meta :: "'a attr"
  Tile_image :: "'a attr"

text \<open>\<^verbatim>\<open>TileBase.__init__(self, map, x, y, meta, image)\<close>, for a tile of a \<^verbatim>\<open>Map\<close>\<close>

definition Tile_init :: "'a Map \<Rightarrow> int \<Rightarrow> int \<Rightarrow> 'a attr \<Rightarrow> 'a attr \<Rightarrow> 'a Tile" where
  "Tile_init m x y meta img =
     \<lparr>Tile_map = m, Tile_x = x, Tile_y = y, Tile_width = Map_tw m, Tile_height = Map_th m,
      Tile_meta = meta, Tile_image = img\<rparr>"

text \<open>
  The first part of \<^verbatim>\<open>Map.get\<close>: the grid coordinate, from \<^verbatim>\<open>pos\<close> or from \<^verbatim>\<open>px\<close>
  divided by the tile size.
\<close>

definition Map_get_xy ::
  "'a Map \<Rightarrow> (int \<times> int) option \<Rightarrow> (int \<times> int) option \<Rightarrow> error + int \<times> int" where
  "Map_get_xy self pos px =
     (case pos of
        Some (x, y) \<Rightarrow> Inr (x, y)
      | None \<Rightarrow>
          (case px of
             Some (x, y) \<Rightarrow>
               (if Map_tw self = 0 then Inl ZeroDivisionError
                else if Map_th self = 0 then Inl ZeroDivisionError
                else Inr (x div Map_tw self, y div Map_th self))
           | None \<Rightarrow> Inl ValueError))"

text \<open>
  \<^verbatim>\<open>Map.get(self, pos=None, px=None)\<close>. The body of the \<^verbatim>\<open>try\<close> can only raise
  \<^verbatim>\<open>IndexError\<close>, which the \<^verbatim>\<open>except\<close> clause turns into the result \<^verbatim>\<open>None\<close>.
\<close>

definition Map_get ::
  "'a Map \<Rightarrow> (int \<times> int) option \<Rightarrow> (int \<times> int) option \<Rightarrow> error + 'a Tile option" where
  "Map_get self pos px =
     (case Map_get_xy self pos px of
        Inl e \<Rightarrow> Inl e
      | Inr (x, y) \<Rightarrow>
          (if x < 0 \<or> y < 0 then Inr None
           else
             (case and_index (Map_meta self) x y of
                Inl e \<Rightarrow> Inr None
              | Inr meta \<Rightarrow>
                  (case and_index (Map_images self) x y of
                     Inl e \<Rightarrow> Inr None
                   | Inr img \<Rightarrow> Inr (Some (Tile_init self x y meta img))))))"

subsection \<open>Geometry of a rectangular tile\<close>

definition Tile_get_top :: "'a Tile \<Rightarrow> int" where
  "Tile_get_top self = (Tile_y self + 1) * Tile_height self"

definition Tile_get_bottom :: "'a Tile \<Rightarrow> int" where
  "Tile_get_bottom self = Tile_y self * Tile_height self"

definition Tile_get_center :: "'a Tile \<Rightarrow> int \<times> int" where
  "Tile_get_center self =
     (Tile_x self * Tile_width self + Tile_width self div 2,
      Tile_y self * Tile_height self + Tile_height self div 2)"

definition Tile_get_midtop :: "'a Tile \<Rightarrow> int \<times> int" where
  "Tile_get_midtop self =
     (Tile_x self * Tile_width self + Tile_width self div 2, Tile_y self * Tile_height self)"

definition Tile_get_midbottom :: "'a Tile \<Rightarrow> int \<times> int" where
  "Tile_get_midbottom self =
     (Tile_x self * Tile_width self + Tile_width self div 2, (Tile_y self + 1) * Tile_height self)"

definition Tile_get_left :: "'a Tile \<Rightarrow> int" where
  "Tile_get_left self = Tile_x self * Tile_width self"

definition Tile_get_right :: "'a Tile \<Rightarrow> int" where
  "Tile_get_right self = (Tile_x self + 1) * Tile_width self"

definition Tile_get_topleft :: "'a Tile \<Rightarrow> int \<times> int" where
  "Tile_get_topleft self = (Tile_x self * Tile_width self, Tile_y self * Tile_height self)"

definition Tile_get_topright :: "'a Tile \<Rightarrow> int \<times> int" where
  "Tile_get_topright self = ((Tile_x self + 1) * Tile_width self, Tile_y self * Tile_height self)"

definition Tile_get_bottomleft :: "'a Tile \<Rightarrow> int \<times> int" where
  "Tile_get_bottomleft self = (Tile_x self * Tile_height self, (Tile_y self + 1) * Tile_height self)"

definition Tile_get_bottomright :: "'a Tile \<Rightarrow> int \<times> int" where
  "Tile_get_bottomright self =
     ((Tile_x self + 1) * Tile_width self, (Tile_y self + 1) * Tile_height self)"

definition Tile_get_midleft :: "'a Tile \<Rightarrow> int \<times> int" where
  "Tile_get_midleft self =
     (Tile_x self * Tile_width self, Tile_y self * Tile_height self + Tile_height self div 2)"

definition Tile_get_midright :: "'a Tile \<Rightarrow> int \<times> int" where
  "Tile_get_midright self =
     ((Tile_x self + 1) * Tile_width self, Tile_y self * Tile_height self + Tile_height self div 2)"

definition Tile_UP :: "int \<times> int" where "Tile_UP = (0, 1)"
definition Tile_DOWN :: "int \<times> int" where "Tile_DOWN = (0, - 1)"
definition Tile_LEFT :: "int \<times> int" where "Tile_LEFT = (- 1, 0)"
definition Tile_RIGHT :: "int \<times> int" where "Tile_RIGHT = (1, 0)"

definition Tile_get_neighbor :: "'a Tile \<Rightarrow> int \<times> int \<Rightarrow> error + 'a Tile option" where
  "Tile_get_neighbor self direction =
     (case direction of (dx, dy) \<Rightarrow>
        Map_get (Tile_map self) (Some (Tile_x self + dx, Tile_y self + dy)) None)"

section \<open>Hexagonal maps\<close>

text \<open>
  \<^verbatim>\<open>int(th / math.sqrt(3))\<close> is modelled in exact arithmetic: the integer part, towards
  zero, of \<open>th / \<surd>3\<close>, which for \<open>th \<ge> 0\<close> is the largest \<open>e\<close> with \<open>3 * e\<^sup>2 \<le> th\<^sup>2\<close>.
  \<open>isqrt n\<close> is the integer square root of \<open>n\<close>.
\<close>

primrec isqrt :: "nat \<Rightarrow> nat" where
  "isqrt 0 = 0"
| "isqrt (Suc n) = (let r = isqrt n in if (r + 1) * (r + 1) \<le> Suc n then r + 1 else r)"

definition edge_length_of :: "int \<Rightarrow> int" where
  "edge_length_of th =
     (if th < 0 then - int (isqrt (nat (th * th) div 3)) else int (isqrt (nat (th * th) div 3)))"

record 'a HexMap =
  HexMap_tw :: int
  HexMap_th :: int
  HexMap_edge_length :: int
  HexMap_left :: "int \<times> int"
  HexMap_right :: "int \<times> int"
  HexMap_pxw :: int
  HexMap_pxh :: int
  HexMap_x :: int
  HexMap_y :: int
  HexMap_z :: int
  HexMap_meta :: "'a layer option"
  HexMap_images :: "'a layer option"

record 'a HexTile =
  HexTile_map :: "'a HexMap"
  HexTile_x :: int
  HexTile_y :: int
  HexTile_width :: int
  HexTile_height :: int
  HexTile_meta :: "'a option"
  HexTile_image :: "'a option"

text \<open>\<^verbatim>\<open>TileBase.__init__(self, map, x, y, meta, image)\<close>, for a tile of a \<^verbatim>\<open>HexMap\<close>\<close>

definition HexTile_init :: "'a HexMap \<Rightarrow> int \<Rightarrow> int \<Rightarrow> 'a option \<Rightarrow> 'a option \<Rightarrow> 'a HexTile" where
  "HexTile_init m x y meta img =
     \<lparr>HexTile_map = m, HexTile_x = x, HexTile_y = y,
      HexTile_width = HexMap_tw m, HexTile_height = HexMap_th m,
      HexTile_meta = meta, HexTile_image = img\<rparr>"

subsection \<open>Geometry of a hexagonal tile\<close>

definition HexTile_get_origin :: "'a HexTile \<Rightarrow> int \<times> int" where
  "HexTile_get_origin self =
     (let x = HexTile_x self * (HexTile_width self div 2 + HexTile_width self div 4);
          y = HexTile_y self * HexTile_height self
      in if HexTile_x self mod 2 \<noteq> 0 then (x, y + HexTile_height self div 2) else (x, y))"

definition HexTile_get_top :: "'a HexTile \<Rightarrow> int" where
  "HexTile_get_top self = snd (HexTile_get_origin self) + HexTile_height self"

definition HexTile_get_bottom :: "'a HexTile \<Rightarrow> int" where
  "HexTile_get_bottom self = snd (HexTile_get_origin self)"

definition HexTile_get_center :: "'a HexTile \<Rightarrow> int \<times> int" where
  "HexTile_get_center self =
     (case HexTile_get_origin self of (x, y) \<Rightarrow>
        (x + HexTile_width self div 2, y + HexTile_height self div 2))"

definition HexTile_get_left :: "'a HexTile \<Rightarrow> int \<times> int" where
  "HexTile_get_left self =
     (case HexTile_get_origin self of (x, y) \<Rightarrow> (x, y + HexTile_height self div 2))"

definition HexTile_get_right :: "'a HexTile \<Rightarrow> int \<times> int" where
  "HexTile_get_right self =
     (case HexTile_get_origin self of (x, y) \<Rightarrow>
        (x + HexTile_width self, y + HexTile_height self div 2))"

subsection \<open>Construction and lookup\<close>

text \<open>
  \<^verbatim>\<open>HexMap.__init__(self, th, origin=(0, 0, 0), meta=None, images=None)\<close>. The three
  tiles it builds to measure the map read only \<^verbatim>\<open>tw\<close> and \<^verbatim>\<open>th\<close> of the map under
  construction; \<^verbatim>\<open>pxw\<close> and \<^verbatim>\<open>pxh\<close>, not assigned yet at that point, are 0 in \<open>m0\<close>.
\<close>

definition HexMap_init ::
  "int \<Rightarrow> int \<times> int \<times> int \<Rightarrow> 'a layer option \<Rightarrow> 'a layer option \<Rightarrow> error + 'a HexMap" where
  "HexMap_init th origin meta images =
     (if Option.is_none meta \<and> Option.is_none images then Inl ValueError
      else
        (case origin of (ox, oy, oz) \<Rightarrow>
          (let edge_length = edge_length_of th;
               tw = edge_length * 2;
               m0 = \<lparr>HexMap_tw = tw, HexMap_th = th, HexMap_edge_length = edge_length,
                     HexMap_left = (tw div 2, th div 2),
                     HexMap_right = (edge_length * 2, th div 2),
                     HexMap_pxw = 0, HexMap_pxh = 0,
                     HexMap_x = ox, HexMap_y = oy, HexMap_z = oz,
                     HexMap_meta = meta, HexMap_images = images\<rparr>
           in case py_or meta images of
                None \<Rightarrow> Inl TypeError
              | Some l \<Rightarrow>
                  (case py_index l 0 of
                     Inl e \<Rightarrow> Inl e
                   | Inr col \<Rightarrow>
                       (let width = int (length l);
                            height = int (length col);
                            pxw = fst (HexTile_get_right (HexTile_init m0 (width - 1) 0 None None));
                            pxh = (if width > 1
                                   then HexTile_get_top (HexTile_init m0 1 (height - 1) None None)
                                   else HexTile_get_top (HexTile_init m0 0 (height - 1) None None))
                        in Inr (m0\<lparr>HexMap_pxw := pxw, HexMap_pxh := pxh\<rparr>))))))"

text \<open>
  One layer's part of the \<^verbatim>\<open>try\<close> block of \<^verbatim>\<open>HexMap.get\<close>: a layer that is \<^verbatim>\<open>None\<close>
  or empty is skipped and leaves the attribute \<^verbatim>\<open>None\<close>; otherwise the cell is read, and
  a cell that is \<^verbatim>\<open>None\<close> ends the lookup (\<open>Inr None\<close> here).
\<close>

definition hex_layer :: "'a layer option \<Rightarrow> int \<Rightarrow> int \<Rightarrow> error + 'a option option" where
  "hex_layer lo x y =
     (if truthy lo
      then (case index2 (the lo) x y of
              Inl e \<Rightarrow> Inl e
            | Inr None \<Rightarrow> Inr None
            | Inr (Some v) \<Rightarrow> Inr (Some (Some v)))
      else Inr (Some None))"

text \<open>\<^verbatim>\<open>HexMap.get(self, pos=None, px=None)\<close>\<close>

definition HexMap_get ::
  "'a HexMap \<Rightarrow> (int \<times> int) option \<Rightarrow> (int \<times> int) option \<Rightarrow> error + 'a HexTile option" where
  "HexMap_get self pos px =
     (case pos of
        Some (x, y) \<Rightarrow>
          (if x < 0 \<or> y < 0 then Inr None
           else
             (case hex_layer (HexMap_meta self) x y of
                Inl e \<Rightarrow> Inr None
              | Inr None \<Rightarrow> Inr None
              | Inr (Some meta) \<Rightarrow>
                  (case hex_layer (HexMap_images self) x y of
                     Inl e \<Rightarrow> Inr None
                   | Inr None \<Rightarrow> Inr None
                   | Inr (Some img) \<Rightarrow> Inr (Some (HexTile_init self x y meta img)))))
      | None \<Rightarrow>
          (case px of
             Some p \<Rightarrow> Inl NotImplemented_raise
           | None \<Rightarrow> Inl ValueError))"

text \<open>
  The six direction symbols of \<^verbatim>\<open>HexTile\<close>; \<open>Unknown_direction\<close> is any other object
  passed as \<^verbatim>\<open>direction\<close>.
\<close>

datatype direction = UP | DOWN | UP_LEFT | UP_RIGHT | DOWN_LEFT | DOWN_RIGHT | Unknown_direction

text \<open>\<^verbatim>\<open>HexTile.get_neighbor(self, direction)\<close>\<close>

fun HexTile_get_neighbor :: "'a HexTile \<Rightarrow> direction \<Rightarrow> error + 'a HexTile option" where
  "HexTile_get_neighbor self UP =
     HexMap_get (HexTile_map self) (Some (HexTile_x self, HexTile_y self + 1)) None"
| "HexTile_get_neighbor self DOWN =
     HexMap_get (HexTile_map self) (Some (HexTile_x self, HexTile_y self - 1)) None"
| "HexTile_get_neighbor self UP_LEFT =
     (if HexTile_x self mod 2 \<noteq> 0
      then HexMap_get (HexTile_map self) (Some (HexTile_x self - 1, HexTile_y self + 1)) None
      else HexMap_get (HexTile_map self) (Some (HexTile_x self - 1, HexTile_y self)) None)"
| "HexTile_get_neighbor self UP_RIGHT =
     (if HexTile_x self mod 2 \<noteq> 0
      then HexMap_get (HexTile_map self) (Some (HexTile_x self + 1, HexTile_y self + 1)) None
      else HexMap_get (HexTile_map self) (Some (HexTile_x self + 1, HexTile_y self)) None)"
| "HexTile_get_neighbor self DOWN_LEFT =
     (if HexTile_x self mod 2 \<noteq> 0
      then HexMap_get (HexTile_map self) (Some (HexTile_x self - 1, HexTile_y self)) None
      else HexMap_get (HexTile_map self) (Some (HexTile_x self - 1, HexTile_y self - 1)) None)"
| "HexTile_get_neighbor self DOWN_RIGHT =
     (if HexTile_x self mod 2 \<noteq> 0
      then HexMap_get (HexTile_map self) (Some (HexTile_x self + 1, HexTile_y self)) None
      else HexMap_get (HexTile_map self) (Some (HexTile_x self + 1, HexTile_y self - 1)) None)"
| "HexTile_get_neighbor self Unknown_direction = Inl ValueError"

section \<open>Extents and example maps\<close>

text \<open>
  \<open>in_extent l x y\<close>: the coordinate indexes a cell of the layer, column \<open>x\<close> and row \<open>y\<close>
  of that column. Its negation is "negative in either axis or beyond the extent".
\<close>

definition in_extent :: "'a layer \<Rightarrow> int \<Rightarrow> int \<Rightarrow> bool" where
  "in_extent l x y = (0 \<le> x \<and> x < int (length l) \<and> 0 \<le> y \<and> y < int (length (l ! nat x)))"

text \<open>
  \<open>covers lo x y\<close>: the parameter \<open>lo\<close> (\<^verbatim>\<open>meta\<close> or \<^verbatim>\<open>images\<close>), when it is a
  non-empty layer, has a cell at \<open>(x, y)\<close>; \<open>no_hole lo x y\<close>: that cell is not \<^verbatim>\<open>None\<close>.
\<close>

definition covers :: "'a layer option \<Rightarrow> int \<Rightarrow> int \<Rightarrow> bool" where
  "covers lo x y = (case lo of None \<Rightarrow> True | Some [] \<Rightarrow> True | Some l \<Rightarrow> in_extent l x y)"

definition no_hole :: "'a layer option \<Rightarrow> int \<Rightarrow> int \<Rightarrow> bool" where
  "no_hole lo x y =
     (case lo of None \<Rightarrow> True | Some [] \<Rightarrow> True | Some l \<Rightarrow> \<not> Option.is_none (l ! nat x ! nat y))"

text \<open>
  The grid of the hexagonal example, four columns of two rows, and the maps
  \<^verbatim>\<open>HexMap(32, meta=grid)\<close>, \<^verbatim>\<open>HexMap(32, meta=grid, images=[['p', None]])\<close>,
  \<^verbatim>\<open>HexMap(32, meta=[[None]])\<close> and \<^verbatim>\<open>Map(32, 16, meta=grid)\<close> as their constructors
  return them.
\<close>

definition grid_4x2 :: "string layer" where
  "grid_4x2 = [[Some ''a'', Some ''b''], [Some ''c'', Some ''d''],
               [Some ''e'', Some ''f''], [Some ''g'', Some ''h'']]"

definition sparse_images :: "string layer" where
  "sparse_images = [[Some ''p'', None]]"

definition hex_map_32 :: "string HexMap" where
  "hex_map_32 =
     \<lparr>HexMap_tw = 36, HexMap_th = 32, HexMap_edge_length = 18,
      HexMap_left = (18, 16), HexMap_right = (36, 16), HexMap_pxw = 117, HexMap_pxh = 80,
      HexMap_x = 0, HexMap_y = 0, HexMap_z = 0,
      HexMap_meta = Some grid_4x2, HexMap_images = None\<rparr>"

definition hex_map_sparse :: "string HexMap" where
  "hex_map_sparse = hex_map_32\<lparr>HexMap_images := Some sparse_images\<rparr>"

definition hex_map_hole :: "string HexMap" where
  "hex_map_hole =
     \<lparr>HexMap_tw = 36, HexMap_th = 32, HexMap_edge_length = 18,
      HexMap_left = (18, 16), HexMap_right = (36, 16), HexMap_pxw = 36, HexMap_pxh = 32,
      HexMap_x = 0, HexMap_y = 0, HexMap_z = 0,
      HexMap_meta = Some [[None]], HexMap_images = None\<rparr>"

definition rect_map_32_16 :: "string Map" where
  "rect_map_32_16 =
     \<lparr>Map_pxw = 128, Map_pxh = 32, Map_tw = 32, Map_th = 16, Map_x = 0, Map_y = 0, Map_z = 0,
      Map_meta = Some grid_4x2, Map_images = None\<rparr>"

section \<open>Facts about indexing, truth values and construction\<close>

lemma isqrt_bounds: "isqrt n * isqrt n \<le> n \<and> n < (isqrt n + 1) * (isqrt n + 1)"
proof (induction n)
  case 0
  show ?case by simp
next
  case (Suc n)
  then show ?case by (auto simp: Let_def)
qed

lemma truthy_iff: "truthy lo = (\<exists>c cs. lo = Some (c # cs))"
  by (cases lo rule: truthy.cases) simp_all

lemma truthy_Some: "truthy (Some l) = (l \<noteq> [])"
  by (cases l) simp_all

lemma index2_in: "in_extent l x y \<Longrightarrow> index2 l x y = Inr (l ! nat x ! nat y)"
  by (simp add: in_extent_def index2_def py_index_def)

lemma index2_out: "\<not> in_extent l x y \<Longrightarrow> 0 \<le> x \<Longrightarrow> 0 \<le> y \<Longrightarrow> index2 l x y = Inl IndexError"
  by (simp add: in_extent_def index2_def py_index_def)

lemma py_or_Some_nonempty:
  assumes "py_or meta images = Some l" "l \<noteq> []"
  shows "(truthy meta \<and> meta = Some l) \<or> (\<not> truthy meta \<and> images = Some l \<and> truthy images)"
  using assms by (cases "truthy meta") (simp_all add: py_or_def truthy_Some)

lemma py_or_Some_not_both_None:
  "py_or meta images = Some l \<Longrightarrow> \<not> (Option.is_none meta \<and> Option.is_none images)"
  by (cases meta) (auto simp: py_or_def Option.is_none_def)

lemma Map_init_fields:
  assumes "Map_init tw th origin meta images = Inr m"
  shows "Map_meta m = meta \<and> Map_images m = images \<and> Map_tw m = tw \<and> Map_th m = th"
  using assms
  by (auto simp: Map_init_def split: prod.splits option.splits sum.splits if_splits)

lemma Map_init_backing:
  assumes "Map_init tw th origin meta images = Inr m"
  shows "\<exists>l. py_or meta images = Some l \<and> 2 \<le> length l"
  using assms
  by (auto simp: Map_init_def py_index_def split: prod.splits option.splits sum.splits if_splits)

text \<open>
  With a backing array of two columns or more the constructor returns the map whose pixel
  size is the number of columns times \<open>tw\<close> and the length of column 1 times \<open>th\<close>.
\<close>

lemma Map_init_two_columns:
  assumes "py_or meta images = Some l" and "2 \<le> length l"
  shows "Map_init tw th (ox, oy, oz) meta images =
           Inr \<lparr>Map_pxw = int (length l) * tw, Map_pxh = int (length (l ! 1)) * th,
                Map_tw = tw, Map_th = th, Map_x = ox, Map_y = oy, Map_z = oz,
                Map_meta = meta, Map_images = images\<rparr>"
proof -
  from assms(2) have "py_index l 1 = Inr (l ! 1)" by (simp add: py_index_def)
  with assms(1) py_or_Some_not_both_None [OF assms(1)] show ?thesis
    by (simp add: Map_init_def)
qed

text \<open>With a backing array of one column, \<^verbatim>\<open>l[1]\<close> raises.\<close>

lemma Map_init_one_column:
  assumes "py_or meta images = Some [c]"
  shows "Map_init tw th origin meta images = Inl IndexError"
  using assms py_or_Some_not_both_None [OF assms]
  by (simp add: Map_init_def py_index_def split: prod.splits)

lemma HexMap_init_fields:
  assumes "HexMap_init th origin meta images = Inr m"
  shows "HexMap_meta m = meta \<and> HexMap_images m = images \<and> HexMap_th m = th"
  using assms
  by (auto simp: HexMap_init_def Let_def split: prod.splits option.splits sum.splits if_splits)

lemma HexMap_init_backing:
  assumes "HexMap_init th origin meta images = Inr m"
  shows "\<exists>l. py_or meta images = Some l \<and> l \<noteq> []"
  using assms
  by (auto simp: HexMap_init_def Let_def py_index_def split: prod.splits option.splits sum.splits if_splits)

subsection \<open>Lookups outside the extent\<close>

lemma and_index_out:
  assumes "l \<noteq> []" "\<not> in_extent l x y" "0 \<le> x" "0 \<le> y"
  shows "and_index (Some l) x y = Inl IndexError"
  using assms by (cases l) (simp_all add: and_index_def index2_out)

lemma and_index_falsy: "\<not> truthy lo \<Longrightarrow> \<exists>v. and_index lo x y = Inr v"
  by (cases lo rule: truthy.cases) (simp_all add: and_index_def)

lemma hex_layer_out:
  assumes "l \<noteq> []" "\<not> in_extent l x y" "0 \<le> x" "0 \<le> y"
  shows "hex_layer (Some l) x y = Inl IndexError"
  using assms by (simp add: hex_layer_def truthy_Some index2_out)

lemma hex_layer_falsy: "\<not> truthy lo \<Longrightarrow> hex_layer lo x y = Inr (Some None)"
  by (simp add: hex_layer_def)

lemma Map_get_out:
  assumes b: "py_or (Map_meta m) (Map_images m) = Some l" and ne: "l \<noteq> []"
    and out: "\<not> in_extent l x y"
  shows "Map_get m (Some (x, y)) None = Inr None"
proof (cases "x < 0 \<or> y < 0")
  case True
  then show ?thesis by (simp add: Map_get_def Map_get_xy_def)
next
  case False
  then have pos: "0 \<le> x" "0 \<le> y" by simp_all
  from py_or_Some_nonempty [OF b ne] show ?thesis
  proof
    assume "truthy (Map_meta m) \<and> Map_meta m = Some l"
    then show ?thesis
      using False and_index_out [OF ne out pos]
      by (simp add: Map_get_def Map_get_xy_def)
  next
    assume a: "\<not> truthy (Map_meta m) \<and> Map_images m = Some l \<and> truthy (Map_images m)"
    then obtain v where "and_index (Map_meta m) x y = Inr v"
      using and_index_falsy by blast
    then show ?thesis
      using a False and_index_out [OF ne out pos]
      by (simp add: Map_get_def Map_get_xy_def)
  qed
qed

lemma HexMap_get_out:
  assumes b: "py_or (HexMap_meta m) (HexMap_images m) = Some l" and ne: "l \<noteq> []"
    and out: "\<not> in_extent l x y"
  shows "HexMap_get m (Some (x, y)) None = Inr None"
proof (cases "x < 0 \<or> y < 0")
  case True
  then show ?thesis by (simp add: HexMap_get_def)
next
  case False
  then have pos: "0 \<le> x" "0 \<le> y" by simp_all
  from py_or_Some_nonempty [OF b ne] show ?thesis
  proof
    assume "truthy (HexMap_meta m) \<and> HexMap_meta m = Some l"
    then show ?thesis
      using False hex_layer_out [OF ne out pos]
      by (simp add: HexMap_get_def)
  next
    assume a: "\<not> truthy (HexMap_meta m) \<and> HexMap_images m = Some l \<and> truthy (HexMap_images m)"
    then show ?thesis
      using False hex_layer_out [OF ne out pos] hex_layer_falsy [of "HexMap_meta m" x y]
      by (simp add: HexMap_get_def)
  qed
qed

subsection \<open>Lookups inside the extent\<close>

lemma and_index_in:
  assumes "covers lo x y"
  shows "\<exists>v. and_index lo x y = Inr v"
proof (cases "truthy lo")
  case False
  then show ?thesis by (rule and_index_falsy)
next
  case True
  then obtain c cs where lo: "lo = Some (c # cs)" by (auto simp: truthy_iff)
  with assms have "in_extent (c # cs) x y" by (simp add: covers_def)
  then have "index2 (c # cs) x y = Inr ((c # cs) ! nat x ! nat y)" by (rule index2_in)
  then show ?thesis by (simp add: lo and_index_def split: option.split)
qed

lemma Map_get_in:
  assumes "covers (Map_meta m) x y" "covers (Map_images m) x y" "0 \<le> x" "0 \<le> y"
  shows "\<exists>t. Map_get m (Some (x, y)) None = Inr (Some t) \<and> Tile_x t = x \<and> Tile_y t = y"
proof -
  obtain v where v: "and_index (Map_meta m) x y = Inr v" using and_index_in [OF assms(1)] by blast
  obtain w where w: "and_index (Map_images m) x y = Inr w" using and_index_in [OF assms(2)] by blast
  from assms(3,4) have "\<not> (x < 0 \<or> y < 0)" by simp
  then have "Map_get m (Some (x, y)) None = Inr (Some (Tile_init m x y v w))"
    by (simp add: Map_get_def Map_get_xy_def v w)
  then show ?thesis by (simp add: Tile_init_def)
qed

lemma hex_layer_in:
  assumes "covers lo x y" "no_hole lo x y"
  shows "\<exists>v. hex_layer lo x y = Inr (Some v)"
proof (cases "truthy lo")
  case False
  then show ?thesis by (simp add: hex_layer_falsy)
next
  case True
  then obtain c cs where lo: "lo = Some (c # cs)" by (auto simp: truthy_iff)
  with assms have "in_extent (c # cs) x y" by (simp add: covers_def)
  then have "index2 (c # cs) x y = Inr ((c # cs) ! nat x ! nat y)" by (rule index2_in)
  moreover from assms(2) lo have "\<not> Option.is_none ((c # cs) ! nat x ! nat y)"
    by (simp add: no_hole_def)
  ultimately show ?thesis
    by (auto simp: lo hex_layer_def Option.is_none_def split: option.split)
qed

lemma HexMap_get_in:
  assumes "covers (HexMap_meta m) x y" "covers (HexMap_images m) x y" "0 \<le> x" "0 \<le> y"
    "no_hole (HexMap_meta m) x y" "no_hole (HexMap_images m) x y"
  shows "\<exists>t. HexMap_get m (Some (x, y)) None = Inr (Some t) \<and> HexTile_x t = x \<and> HexTile_y t = y"
proof -
  obtain v where v: "hex_layer (HexMap_meta m) x y = Inr (Some v)"
    using hex_layer_in [OF assms(1) assms(5)] by blast
  obtain w where w: "hex_layer (HexMap_images m) x y = Inr (Some w)"
    using hex_layer_in [OF assms(2) assms(6)] by blast
  from assms(3,4) have "\<not> (x < 0 \<or> y < 0)" by simp
  then have "HexMap_get m (Some (x, y)) None = Inr (Some (HexTile_init m x y v w))"
    by (simp add: HexMap_get_def v w)
  then show ?thesis by (simp add: HexTile_init_def)
qed

lemma covers_nonneg:
  assumes "truthy (py_or meta images)" "covers meta x y" "covers images x y"
  shows "0 \<le> x \<and> 0 \<le> y"
proof (cases "truthy meta")
  case True
  then obtain c cs where "meta = Some (c # cs)" by (auto simp: truthy_iff)
  with assms(2) show ?thesis by (simp add: covers_def in_extent_def)
next
  case False
  with assms(1) have "truthy images" by (simp add: py_or_def)
  then obtain c cs where "images = Some (c # cs)" by (auto simp: truthy_iff)
  with assms(3) show ?thesis by (simp add: covers_def in_extent_def)
qed

lemma HexMap_get_Some:
  assumes "HexMap_get m (Some (x, y)) None = Inr (Some t)"
  shows "HexTile_map t = m \<and> HexTile_x t = x \<and> HexTile_y t = y"
  using assms
  by (auto simp: HexMap_get_def HexTile_init_def split: if_splits sum.splits option.splits)

subsection \<open>The example maps are what the constructors return\<close>

lemma edge_length_of_32: "edge_length_of 32 = 18"
  by code_simp

lemmas hex_eval = HexMap_init_def Let_def py_or_def py_index_def HexTile_init_def
  HexTile_get_right_def HexTile_get_top_def HexTile_get_origin_def edge_length_of_32
  HexMap_get_def hex_layer_def index2_def

lemma hex_map_32_init: "HexMap_init 32 (0, 0, 0) (Some grid_4x2) None = Inr hex_map_32"
  by (simp add: hex_eval grid_4x2_def hex_map_32_def)

lemma hex_map_sparse_init:
  "HexMap_init 32 (0, 0, 0) (Some grid_4x2) (Some sparse_images) = Inr hex_map_sparse"
  by (simp add: hex_eval grid_4x2_def hex_map_32_def hex_map_sparse_def)

lemma hex_map_hole_init: "HexMap_init 32 (0, 0, 0) (Some [[None]]) None = Inr hex_map_hole"
  by (simp add: hex_eval hex_map_hole_def)

lemma rect_map_32_16_init: "Map_init 32 16 (0, 0, 0) (Some grid_4x2) None = Inr rect_map_32_16"
  by (simp add: Map_init_def py_or_def py_index_def grid_4x2_def rect_map_32_16_def)

lemma hex_map_32_get:
  "HexMap_get hex_map_32 (Some (0, 0)) None = Inr (Some (HexTile_init hex_map_32 0 0 (Some ''a'') None))"
  "HexMap_get hex_map_32 (Some (0, 1)) None = Inr (Some (HexTile_init hex_map_32 0 1 (Some ''b'') None))"
  "HexMap_get hex_map_32 (Some (1, 0)) None = Inr (Some (HexTile_init hex_map_32 1 0 (Some ''c'') None))"
  "HexMap_get hex_map_32 (Some (1, 1)) None = Inr (Some (HexTile_init hex_map_32 1 1 (Some ''d'') None))"
  "HexMap_get hex_map_32 (Some (2, 0)) None = Inr (Some (HexTile_init hex_map_32 2 0 (Some ''e'') None))"
  by (simp_all add: HexMap_get_def hex_layer_def index2_def py_index_def hex_map_32_def grid_4x2_def)

section \<open>Neighbours on the hexagonal grid\<close>

text \<open>
  C1. For a hexagonal tile at \<open>(x, y)\<close>, \<^verbatim>\<open>get_neighbor\<close> is the lookup, in the tile's map,
  of the coordinate given by the parity rule: \<open>UP\<close> is \<open>(x, y + 1)\<close> and \<open>DOWN\<close> is
  \<open>(x, y - 1)\<close>; in an odd column \<open>UP_LEFT\<close>, \<open>UP_RIGHT\<close>, \<open>DOWN_LEFT\<close>, \<open>DOWN_RIGHT\<close> are
  \<open>(x - 1, y + 1)\<close>, \<open>(x + 1, y + 1)\<close>, \<open>(x - 1, y)\<close>, \<open>(x + 1, y)\<close>; in an even column they
  are \<open>(x - 1, y)\<close>, \<open>(x + 1, y)\<close>, \<open>(x - 1, y - 1)\<close>, \<open>(x + 1, y - 1)\<close>.
\<close>

theorem HexTile_get_neighbor_parity_rule:
  fixes t :: "'a HexTile"
  defines "x \<equiv> HexTile_x t" and "y \<equiv> HexTile_y t"
  defines "look \<equiv> \<lambda>c. HexMap_get (HexTile_map t) (Some c) None"
  shows "HexTile_get_neighbor t UP = look (x, y + 1)
       \<and> HexTile_get_neighbor t DOWN = look (x, y - 1)
       \<and> HexTile_get_neighbor t UP_LEFT = look (if odd x then (x - 1, y + 1) else (x - 1, y))
       \<and> HexTile_get_neighbor t UP_RIGHT = look (if odd x then (x + 1, y + 1) else (x + 1, y))
       \<and> HexTile_get_neighbor t DOWN_LEFT = look (if odd x then (x - 1, y) else (x - 1, y - 1))
       \<and> HexTile_get_neighbor t DOWN_RIGHT = look (if odd x then (x + 1, y) else (x + 1, y - 1))"
  unfolding x_def y_def look_def by (simp add: odd_iff_mod_2_eq_one)

section \<open>Construction of a rectangular map\<close>

text \<open>
  C2. The claim is that a rectangular map over a backing array of \<open>tiles_x \<ge> 1\<close> columns
  and \<open>tiles_y \<ge> 1\<close> rows is constructed, with \<open>pxw = tiles_x * tw\<close> and
  \<open>pxh = tiles_y * th\<close>. The constructor reads the height from column 1, \<^verbatim>\<open>len(l[1])\<close>,
  where \<^verbatim>\<open>HexMap.__init__\<close> reads column 0: on the one-column map
  \<^verbatim>\<open>Map(32, 32, meta=[['a']])\<close> it raises \<^verbatim>\<open>IndexError\<close>. (For two columns or more the
  claim holds, see \<open>Map_init_two_columns\<close>.)
\<close>

theorem Map_init_single_column_raises:
  "Map_init 32 32 (0, 0, 0) (Some [[Some ''a'']]) None = Inl IndexError"
  by (simp add: Map_init_def py_or_def py_index_def)

text \<open>
  C4, as amended. Construction of a rectangular map raises when both \<^verbatim>\<open>meta\<close> and
  \<^verbatim>\<open>images\<close> are \<^verbatim>\<open>None\<close>. The tile size is not checked: whenever the backing array
  \<^verbatim>\<open>meta or images\<close> has two columns or more, construction succeeds for every \<open>tw\<close> and
  \<open>th\<close>, zero and negative ones included, and the map keeps them.
\<close>

theorem Map_init_rejects_only_missing_layers:
  "Map_init tw th origin None None = Inl ValueError
   \<and> (py_or meta images = Some l \<longrightarrow> 2 \<le> length l \<longrightarrow>
        (\<exists>m. Map_init tw th origin meta images = Inr m \<and> Map_tw m = tw \<and> Map_th m = th))"
proof (intro conjI impI)
  show "Map_init tw th origin None None = Inl ValueError" by (simp add: Map_init_def)
next
  assume a: "py_or meta images = Some l" and b: "2 \<le> length l"
  obtain ox oy oz where o: "origin = (ox, oy, oz)" by (cases origin) auto
  show "\<exists>m. Map_init tw th origin meta images = Inr m \<and> Map_tw m = tw \<and> Map_th m = th"
    unfolding o Map_init_two_columns [OF a b] by simp
qed

text \<open>The amended C4 at \<^verbatim>\<open>Map(0, -5, meta=grid)\<close>.\<close>

theorem Map_init_rejects_only_missing_layers_witness:
  "py_or (Some grid_4x2) None = Some grid_4x2 \<and> 2 \<le> length grid_4x2
   \<and> (\<exists>m. Map_init 0 (- 5) (0, 0, 0) (Some grid_4x2) None = Inr m
          \<and> Map_tw m = 0 \<and> Map_th m = - 5)"
proof -
  have a: "py_or (Some grid_4x2) None = Some grid_4x2" by (simp add: py_or_def grid_4x2_def)
  have b: "2 \<le> length grid_4x2" by (simp add: grid_4x2_def)
  from Map_init_rejects_only_missing_layers
         [of 0 "- 5" "(0, 0, 0)" "Some grid_4x2" None grid_4x2] a b
  show ?thesis by blast
qed

text \<open>
  C4 as stated fails: with \<open>tw = 0\<close> and \<open>th = - 5\<close> the constructor returns a map.
\<close>

theorem Map_init_accepts_nonpositive_tile_size:
  "Map_init 0 (- 5) (0, 0, 0) (Some grid_4x2) None =
     Inr \<lparr>Map_pxw = 0, Map_pxh = - 10, Map_tw = 0, Map_th = - 5, Map_x = 0, Map_y = 0, Map_z = 0,
          Map_meta = Some grid_4x2, Map_images = None\<rparr>"
  by (simp add: Map_init_def py_or_def py_index_def grid_4x2_def)

section \<open>Lookup by grid coordinate\<close>

text \<open>
  C3. For a constructed rectangular or hexagonal map with backing array \<open>l\<close>
  (\<^verbatim>\<open>meta or images\<close>) and a coordinate \<open>(x, y)\<close> that is negative in an axis or beyond the
  extent of \<open>l\<close>, \<^verbatim>\<open>get(pos=(x, y))\<close> returns \<^verbatim>\<open>None\<close>; it does not raise.
\<close>

theorem get_out_of_range_is_None:
  assumes "py_or meta images = Some l" and "\<not> in_extent l x y"
  shows "(Map_init tw th origin meta images = Inr m \<longrightarrow>
            Map_get m (Some (x, y)) None = Inr None)
       \<and> (HexMap_init hth horigin meta images = Inr hm \<longrightarrow>
            HexMap_get hm (Some (x, y)) None = Inr None)"
proof (intro conjI impI)
  assume c: "Map_init tw th origin meta images = Inr m"
  from Map_init_backing [OF c] assms(1) have "l \<noteq> []" by auto
  with Map_init_fields [OF c] assms show "Map_get m (Some (x, y)) None = Inr None"
    by (simp add: Map_get_out)
next
  assume c: "HexMap_init hth horigin meta images = Inr hm"
  from HexMap_init_backing [OF c] assms(1) have "l \<noteq> []" by auto
  with HexMap_init_fields [OF c] assms show "HexMap_get hm (Some (x, y)) None = Inr None"
    by (simp add: HexMap_get_out)
qed

text \<open>C3 at column 4 of the four-column grid, for both kinds of map.\<close>

theorem get_out_of_range_is_None_witness:
  "py_or (Some grid_4x2) None = Some grid_4x2 \<and> \<not> in_extent grid_4x2 4 0
   \<and> Map_init 32 16 (0, 0, 0) (Some grid_4x2) None = Inr rect_map_32_16
   \<and> Map_get rect_map_32_16 (Some (4, 0)) None = Inr None
   \<and> HexMap_init 32 (0, 0, 0) (Some grid_4x2) None = Inr hex_map_32
   \<and> HexMap_get hex_map_32 (Some (4, 0)) None = Inr None"
proof -
  have a: "py_or (Some grid_4x2) None = Some grid_4x2" by (simp add: py_or_def grid_4x2_def)
  have b: "\<not> in_extent grid_4x2 4 0" by (simp add: in_extent_def grid_4x2_def)
  show ?thesis
    using get_out_of_range_is_None
            [OF a b, of 32 16 "(0, 0, 0)" rect_map_32_16 32 "(0, 0, 0)" hex_map_32]
      a b rect_map_32_16_init hex_map_32_init by simp
qed

text \<open>
  C6, as amended. For a constructed rectangular map and a coordinate \<open>(x, y)\<close> inside the
  extent of each supplied non-empty layer, \<^verbatim>\<open>get((x, y))\<close> returns a tile whose \<^verbatim>\<open>x\<close> is
  \<open>x\<close> and whose \<^verbatim>\<open>y\<close> is \<open>y\<close>. For a constructed hexagonal map the same holds provided
  that no supplied non-empty layer holds \<^verbatim>\<open>None\<close> at that cell.
\<close>

theorem get_in_bounds_returns_tile_at_xy:
  assumes "covers meta x y" and "covers images x y"
  shows "(Map_init tw th origin meta images = Inr m \<longrightarrow>
            (\<exists>t. Map_get m (Some (x, y)) None = Inr (Some t) \<and> Tile_x t = x \<and> Tile_y t = y))
       \<and> (HexMap_init hth horigin meta images = Inr hm \<longrightarrow>
            no_hole meta x y \<longrightarrow> no_hole images x y \<longrightarrow>
            (\<exists>t. HexMap_get hm (Some (x, y)) None = Inr (Some t)
                 \<and> HexTile_x t = x \<and> HexTile_y t = y))"
proof (intro conjI impI)
  assume c: "Map_init tw th origin meta images = Inr m"
  from Map_init_backing [OF c] have "truthy (py_or meta images)"
    by (auto simp: truthy_Some)
  from covers_nonneg [OF this assms] Map_init_fields [OF c] assms
  show "\<exists>t. Map_get m (Some (x, y)) None = Inr (Some t) \<and> Tile_x t = x \<and> Tile_y t = y"
    by (simp add: Map_get_in)
next
  assume c: "HexMap_init hth horigin meta images = Inr hm"
    and h: "no_hole meta x y" "no_hole images x y"
  from HexMap_init_backing [OF c] have "truthy (py_or meta images)"
    by (auto simp: truthy_Some)
  from covers_nonneg [OF this assms] HexMap_init_fields [OF c] assms h
  show "\<exists>t. HexMap_get hm (Some (x, y)) None = Inr (Some t) \<and> HexTile_x t = x \<and> HexTile_y t = y"
    by (simp add: HexMap_get_in)
qed

text \<open>The amended C6 at \<open>(1, 1)\<close> of the example grid, for both kinds of map.\<close>

theorem get_in_bounds_returns_tile_at_xy_witness:
  "covers (Some grid_4x2) 1 1 \<and> covers (None :: string layer option) 1 1
   \<and> no_hole (Some grid_4x2) 1 1 \<and> no_hole (None :: string layer option) 1 1
   \<and> Map_init 32 16 (0, 0, 0) (Some grid_4x2) None = Inr rect_map_32_16
   \<and> (\<exists>t. Map_get rect_map_32_16 (Some (1, 1)) None = Inr (Some t) \<and> Tile_x t = 1 \<and> Tile_y t = 1)
   \<and> HexMap_init 32 (0, 0, 0) (Some grid_4x2) None = Inr hex_map_32
   \<and> (\<exists>t. HexMap_get hex_map_32 (Some (1, 1)) None = Inr (Some t)
          \<and> HexTile_x t = 1 \<and> HexTile_y t = 1)"
proof -
  have a: "covers (Some grid_4x2) 1 1" by (simp add: covers_def in_extent_def grid_4x2_def)
  have b: "covers (None :: string layer option) 1 1" by (simp add: covers_def)
  have c: "no_hole (Some grid_4x2) 1 1" by (simp add: no_hole_def grid_4x2_def)
  have d: "no_hole (None :: string layer option) 1 1" by (simp add: no_hole_def)
  from get_in_bounds_returns_tile_at_xy
         [OF a b, of 32 16 "(0, 0, 0)" rect_map_32_16 32 "(0, 0, 0)" hex_map_32]
    a b c d rect_map_32_16_init hex_map_32_init
  show ?thesis by simp
qed

text \<open>
  C6 as stated fails on a hexagonal map: in \<^verbatim>\<open>HexMap(32, meta=[[None]])\<close> the coordinate
  \<open>(0, 0)\<close> is inside the array and \<^verbatim>\<open>get((0, 0))\<close> returns \<^verbatim>\<open>None\<close>, not a tile.
\<close>

theorem HexMap_get_in_bounds_hole_is_None:
  "in_extent [[None :: string option]] 0 0
   \<and> HexMap_init 32 (0, 0, 0) (Some [[None]]) None = Inr hex_map_hole
   \<and> HexMap_get hex_map_hole (Some (0, 0)) None = Inr None"
  by (simp add: in_extent_def hex_map_hole_init)
     (simp add: HexMap_get_def hex_layer_def index2_def py_index_def hex_map_hole_def)

text \<open>
  C9. For a hexagonal map constructed with both a \<^verbatim>\<open>meta\<close> and an \<^verbatim>\<open>images\<close> array and a
  coordinate inside both, \<^verbatim>\<open>get((x, y))\<close> returns \<^verbatim>\<open>None\<close> as soon as one of the two
  cells is \<^verbatim>\<open>None\<close>, whatever the other layer holds there.
\<close>

theorem HexMap_get_None_if_either_layer_None:
  assumes "HexMap_init th origin (Some me) (Some im) = Inr hm"
    and "in_extent me x y" and "in_extent im x y"
    and "me ! nat x ! nat y = None \<or> im ! nat x ! nat y = None"
  shows "HexMap_get hm (Some (x, y)) None = Inr None"
proof -
  from HexMap_init_fields [OF assms(1)]
  have f: "HexMap_meta hm = Some me" "HexMap_images hm = Some im" by simp_all
  from assms(2,3) have ne: "me \<noteq> []" "im \<noteq> []" by (auto simp: in_extent_def)
  have m: "hex_layer (Some me) x y =
             (case me ! nat x ! nat y of None \<Rightarrow> Inr None | Some v \<Rightarrow> Inr (Some (Some v)))"
    using ne by (simp add: hex_layer_def truthy_Some index2_in [OF assms(2)])
  have i: "hex_layer (Some im) x y =
             (case im ! nat x ! nat y of None \<Rightarrow> Inr None | Some v \<Rightarrow> Inr (Some (Some v)))"
    using ne by (simp add: hex_layer_def truthy_Some index2_in [OF assms(3)])
  from assms(4) show ?thesis
    by (auto simp: HexMap_get_def f m i split: option.splits)
qed

text \<open>
  C9 at \<open>(0, 1)\<close> of \<^verbatim>\<open>HexMap(32, meta=grid, images=[['p', None]])\<close>: the meta cell is
  \<^verbatim>\<open>'b'\<close>, the image cell is \<^verbatim>\<open>None\<close>.
\<close>

theorem HexMap_get_None_if_either_layer_None_witness:
  "HexMap_init 32 (0, 0, 0) (Some grid_4x2) (Some sparse_images) = Inr hex_map_sparse
   \<and> in_extent grid_4x2 0 1 \<and> in_extent sparse_images 0 1
   \<and> grid_4x2 ! nat 0 ! nat 1 = Some ''b'' \<and> sparse_images ! nat 0 ! nat 1 = None
   \<and> HexMap_get hex_map_sparse (Some (0, 1)) None = Inr None"
proof -
  have a: "in_extent grid_4x2 0 1" by (simp add: in_extent_def grid_4x2_def)
  have b: "in_extent sparse_images 0 1" by (simp add: in_extent_def sparse_images_def)
  have c: "grid_4x2 ! nat 0 ! nat 1 = Some ''b''" by (simp add: grid_4x2_def)
  have d: "sparse_images ! nat 0 ! nat 1 = None" by (simp add: sparse_images_def)
  from d have e: "grid_4x2 ! nat 0 ! nat 1 = None \<or> sparse_images ! nat 0 ! nat 1 = None" ..
  from HexMap_get_None_if_either_layer_None [OF hex_map_sparse_init a b e]
    hex_map_sparse_init a b c d
  show ?thesis by simp
qed


section \<open>The hexagonal example\<close>

text \<open>
  C5, as amended. For the hexagonal map built from
  \<^verbatim>\<open>meta=[['a','b'],['c','d'],['e','f'],['g','h']]\<close> and \<^verbatim>\<open>th=32\<close>:
  \<^verbatim>\<open>get((0,0)).meta == 'a'\<close>, \<^verbatim>\<open>get((0,0)).get_neighbor(UP).meta == 'b'\<close>,
  \<^verbatim>\<open>get((0,0)).get_neighbor(DOWN_RIGHT)\<close> is absent (column 0 is even, so the lookup is at
  \<open>(1, - 1)\<close>), and \<^verbatim>\<open>get((0,0)).get_neighbor(DOWN)\<close> is absent.
\<close>

theorem hex_example_neighbors:
  "HexMap_init 32 (0, 0, 0) (Some grid_4x2) None = Inr hex_map_32
   \<and> HexMap_get hex_map_32 (Some (0, 0)) None
       = Inr (Some (HexTile_init hex_map_32 0 0 (Some ''a'') None))
   \<and> HexTile_meta (HexTile_init hex_map_32 0 0 (Some ''a'') None) = Some ''a''
   \<and> HexTile_get_neighbor (HexTile_init hex_map_32 0 0 (Some ''a'') None) UP
       = Inr (Some (HexTile_init hex_map_32 0 1 (Some ''b'') None))
   \<and> HexTile_meta (HexTile_init hex_map_32 0 1 (Some ''b'') None) = Some ''b''
   \<and> HexTile_get_neighbor (HexTile_init hex_map_32 0 0 (Some ''a'') None) DOWN_RIGHT = Inr None
   \<and> HexTile_get_neighbor (HexTile_init hex_map_32 0 0 (Some ''a'') None) DOWN = Inr None"
proof -
  have x: "HexTile_x (HexTile_init hex_map_32 0 0 (Some ''a'') None) = 0"
    "HexTile_y (HexTile_init hex_map_32 0 0 (Some ''a'') None) = 0"
    "HexTile_map (HexTile_init hex_map_32 0 0 (Some ''a'') None) = hex_map_32"
    by (simp_all add: HexTile_init_def)
  have n: "HexMap_get hex_map_32 (Some (1, - 1)) None = Inr None"
    "HexMap_get hex_map_32 (Some (0, - 1)) None = Inr None"
    by (simp_all add: HexMap_get_def)
  show ?thesis
    by (simp add: hex_map_32_init hex_map_32_get x n) (simp add: HexTile_init_def)
qed

text \<open>
  C5 as stated fails: from the tile at \<open>(0, 0)\<close>, \<open>DOWN_RIGHT\<close> gives no tile, so there is
  no \<^verbatim>\<open>meta\<close> to compare with \<^verbatim>\<open>'e'\<close>.
\<close>

theorem hex_example_DOWN_RIGHT_is_None:
  "HexMap_init 32 (0, 0, 0) (Some grid_4x2) None = Inr hex_map_32
   \<and> HexMap_get hex_map_32 (Some (0, 0)) None
       = Inr (Some (HexTile_init hex_map_32 0 0 (Some ''a'') None))
   \<and> HexTile_get_neighbor (HexTile_init hex_map_32 0 0 (Some ''a'') None) DOWN_RIGHT = Inr None"
  by (simp add: hex_map_32_init hex_map_32_get) (simp add: HexTile_init_def HexMap_get_def)

text \<open>
  C7. On a hexagonal map, when \<^verbatim>\<open>get((x, y))\<close> returns a tile and \<open>UP\<close> from it returns a
  tile, \<open>DOWN\<close> from that one returns the first tile again: same map, coordinates, meta and
  image. This holds in every column, odd or even.
\<close>

theorem HexTile_UP_then_DOWN:
  assumes "HexMap_get m (Some (x, y)) None = Inr (Some t)"
    and "HexTile_get_neighbor t UP = Inr (Some u)"
  shows "HexTile_get_neighbor u DOWN = Inr (Some t)"
proof -
  from HexMap_get_Some [OF assms(1)]
  have t: "HexTile_map t = m" "HexTile_x t = x" "HexTile_y t = y" by simp_all
  with assms(2) have "HexMap_get m (Some (x, y + 1)) None = Inr (Some u)" by simp
  from HexMap_get_Some [OF this]
  have "HexTile_map u = m" "HexTile_x u = x" "HexTile_y u = y + 1" by simp_all
  then show ?thesis using assms(1) by simp
qed

text \<open>C7 in the odd column 1 of the example: from \<^verbatim>\<open>'c'\<close> up to \<^verbatim>\<open>'d'\<close> and back.\<close>

theorem HexTile_UP_then_DOWN_witness:
  "HexMap_get hex_map_32 (Some (1, 0)) None
     = Inr (Some (HexTile_init hex_map_32 1 0 (Some ''c'') None))
   \<and> HexTile_get_neighbor (HexTile_init hex_map_32 1 0 (Some ''c'') None) UP
     = Inr (Some (HexTile_init hex_map_32 1 1 (Some ''d'') None))
   \<and> HexTile_get_neighbor (HexTile_init hex_map_32 1 1 (Some ''d'') None) DOWN
     = Inr (Some (HexTile_init hex_map_32 1 0 (Some ''c'') None))"
proof -
  have a: "HexMap_get hex_map_32 (Some (1, 0)) None
     = Inr (Some (HexTile_init hex_map_32 1 0 (Some ''c'') None))"
    by (rule hex_map_32_get)
  have b: "HexTile_get_neighbor (HexTile_init hex_map_32 1 0 (Some ''c'') None) UP
     = Inr (Some (HexTile_init hex_map_32 1 1 (Some ''d'') None))"
    using hex_map_32_get(4) by (simp add: HexTile_init_def)
  from HexTile_UP_then_DOWN [OF a b] a b show ?thesis by simp
qed

section \<open>Corners of a rectangular tile\<close>

text \<open>
  C10, as amended. For a rectangular tile at \<open>(x, y)\<close> of width \<open>w\<close> and height \<open>h\<close>:
  \<^verbatim>\<open>topleft\<close> is \<open>(x * w, y * h)\<close> and its second component is \<^verbatim>\<open>bottom\<close>;
  \<^verbatim>\<open>bottomright\<close> is \<open>((x + 1) * w, (y + 1) * h)\<close> and its second component is \<^verbatim>\<open>top\<close>;
  \<^verbatim>\<open>bottomleft\<close> is \<open>(x * h, (y + 1) * h)\<close>, and its first component differs from
  \<^verbatim>\<open>left\<close> exactly when \<open>w \<noteq> h\<close> and \<open>x \<noteq> 0\<close>.
\<close>

theorem Tile_corners:
  fixes t :: "'a Tile"
  defines "x \<equiv> Tile_x t" and "y \<equiv> Tile_y t" and "w \<equiv> Tile_width t" and "h \<equiv> Tile_height t"
  shows "Tile_get_topleft t = (x * w, y * h)
       \<and> snd (Tile_get_topleft t) = Tile_get_bottom t
       \<and> Tile_get_bottomright t = ((x + 1) * w, (y + 1) * h)
       \<and> snd (Tile_get_bottomright t) = Tile_get_top t
       \<and> Tile_get_bottomleft t = (x * h, (y + 1) * h)
       \<and> ((fst (Tile_get_bottomleft t) \<noteq> Tile_get_left t) = (w \<noteq> h \<and> x \<noteq> 0))"
  unfolding x_def y_def w_def h_def
  by (auto simp: Tile_get_topleft_def Tile_get_bottom_def Tile_get_bottomright_def
      Tile_get_top_def Tile_get_bottomleft_def Tile_get_left_def)

text \<open>
  The amended C10 at the tile \<open>(1, 0)\<close> of \<^verbatim>\<open>Map(32, 16, meta=grid)\<close>: \<^verbatim>\<open>bottomleft\<close> is
  \<open>(16, 16)\<close> and \<^verbatim>\<open>left\<close> is 32.
\<close>

theorem Tile_corners_witness:
  "Tile_get_bottomleft (Tile_init rect_map_32_16 1 0 (PyVal ''c'') PyNone) = (16, 16)
   \<and> Tile_get_left (Tile_init rect_map_32_16 1 0 (PyVal ''c'') PyNone) = 32
   \<and> fst (Tile_get_bottomleft (Tile_init rect_map_32_16 1 0 (PyVal ''c'') PyNone))
       \<noteq> Tile_get_left (Tile_init rect_map_32_16 1 0 (PyVal ''c'') PyNone)"
  using Tile_corners [of "Tile_init rect_map_32_16 1 0 (PyVal ''c'') PyNone"]
  by (simp add: Tile_init_def rect_map_32_16_def Tile_get_left_def)

text \<open>
  C10 as stated fails in column 0: the tile \<^verbatim>\<open>get((0, 0))\<close> of \<^verbatim>\<open>Map(32, 16, meta=grid)\<close>
  has \<open>w \<noteq> h\<close>, and the first component of its \<^verbatim>\<open>bottomleft\<close> equals its \<^verbatim>\<open>left\<close>.
\<close>

theorem Tile_bottomleft_column_0_equals_left:
  "Map_get rect_map_32_16 (Some (0, 0)) None
     = Inr (Some (Tile_init rect_map_32_16 0 0 (PyVal ''a'') PyNone))
   \<and> Tile_width (Tile_init rect_map_32_16 0 0 (PyVal ''a'') PyNone)
       \<noteq> Tile_height (Tile_init rect_map_32_16 0 0 (PyVal ''a'') PyNone)
   \<and> fst (Tile_get_bottomleft (Tile_init rect_map_32_16 0 0 (PyVal ''a'') PyNone))
       = Tile_get_left (Tile_init rect_map_32_16 0 0 (PyVal ''a'') PyNone)"
  by (simp add: Map_get_def Map_get_xy_def and_index_def index2_def py_index_def
      rect_map_32_16_def grid_4x2_def Tile_init_def Tile_get_bottomleft_def Tile_get_left_def)

end
